theory Spec2Isabelle
  imports Main
begin

section \<open>JavaScript values\<close>

text \<open>
  Plain data as \<^verbatim>\<open>datalayer.js\<close> handles it: the page data, the plugin
  configuration and event payloads. An object is the list of its own properties (keys
  distinct); numbers are integers, which is all the truthiness test of the source needs.
\<close>

datatype jsval =
    Undefined
  | Null
  | Bool bool
  | Num int
  | Str string
  | Obj "(string \<times> jsval) list"

text \<open>
  What the code can throw: the \<^verbatim>\<open>TypeError\<close> of the language (a property
  read on \<^verbatim>\<open>undefined\<close> or \<^verbatim>\<open>null\<close>, a call of something that is no
  function) and \<^verbatim>\<open>new Error(message)\<close>.
\<close>

datatype error = TypeError | Error string

text \<open>The condition of \<^verbatim>\<open>if (v)\<close>, \<^verbatim>\<open>!v\<close> and \<^verbatim>\<open>v || w\<close>.\<close>

fun truthy :: "jsval \<Rightarrow> bool" where
  "truthy Undefined = False"
| "truthy Null = False"
| "truthy (Bool b) = b"
| "truthy (Num n) = (n \<noteq> 0)"
| "truthy (Str s) = (s \<noteq> [])"
| "truthy (Obj kvs) = True"

text \<open>
  The property read \<^verbatim>\<open>v.k\<close>: a \<^verbatim>\<open>TypeError\<close> on \<^verbatim>\<open>undefined\<close> and
  \<^verbatim>\<open>null\<close>, the property's value on an object that has it, and
  \<^verbatim>\<open>undefined\<close> otherwise (none of the names the source reads, \<^verbatim>\<open>page\<close>,
  \<^verbatim>\<open>type\<close>, \<^verbatim>\<open>name\<close>, \<^verbatim>\<open>site\<close>, \<^verbatim>\<open>id\<close>, \<^verbatim>\<open>user\<close>,
  \<^verbatim>\<open>test\<close>, \<^verbatim>\<open>rule\<close>, is a property of a boolean, a number or a string).
\<close>

fun get_prop :: "jsval \<Rightarrow> string \<Rightarrow> error + jsval" where
  "get_prop Undefined k = Inl TypeError"
| "get_prop Null k = Inl TypeError"
| "get_prop (Obj kvs) k = Inr (case map_of kvs k of None \<Rightarrow> Undefined | Some v \<Rightarrow> v)"
| "get_prop (Bool b) k = Inr Undefined"
| "get_prop (Num n) k = Inr Undefined"
| "get_prop (Str s) k = Inr Undefined"

text \<open>
  The same read where no exception is possible or of interest: \<^verbatim>\<open>undefined\<close>
  stands for a value that could not be read.
\<close>

definition read_prop :: "jsval \<Rightarrow> string \<Rightarrow> jsval" where
  "read_prop v k = (case get_prop v k of Inl e \<Rightarrow> Undefined | Inr x \<Rightarrow> x)"

section \<open>Load rules\<close>

text \<open>
  The values \<^verbatim>\<open>validateRule\<close> can be handed. A function is a HOL function from the
  global data to its result or the error it throws. \<open>RObj t r\<close> is an object that is no
  function: \<open>t\<close> is the value of its property \<^verbatim>\<open>test\<close> (\<open>Undefined\<close> when it
  has none), \<open>r\<close> its property \<^verbatim>\<open>rule\<close> when that is a function and \<open>None\<close>
  when it is absent or not callable.
\<close>

datatype loadRule =
    RUndefined
  | RNull
  | RBool bool
  | RNum int
  | RStr string
  | RFun "jsval \<Rightarrow> error + jsval"
  | RObj jsval "(jsval \<Rightarrow> error + jsval) option"

section \<open>Plugins\<close>

text \<open>
  One call of \<^verbatim>\<open>handleEvent(eventName, eventData, timestamp)\<close>.
\<close>

type_synonym call = "string \<times> jsval \<times> int"

text \<open>
  A plugin instance. \<open>handleEvent\<close> is \<open>None\<close> when the instance has no function of
  that name. A handler is given by what the datalayer can see of it: whether it returns
  (\<open>None\<close>) or throws (\<open>Some e\<close>), as a function of all the calls it has received, the
  current one last. \<open>received\<close> is the list of these calls, oldest first; the test
  suite's \<^verbatim>\<open>EventSubscriber\<close> keeps the same list as \<^verbatim>\<open>caughtEvents\<close>.
  Handlers and constructors that call back into the datalayer are outside the model.
\<close>

record plugin =
  plugin_id :: string
  handleEvent :: "(call list \<Rightarrow> error option) option"
  received :: "call list"

text \<open>
  What \<^verbatim>\<open>addPlugin\<close> is handed as \<^verbatim>\<open>pluginClass\<close>: \<open>getID\<close> is the result
  of the static \<^verbatim>\<open>getID()\<close> (\<open>None\<close> when the value has no such function, as
  for \<^verbatim>\<open>undefined\<close> or a plugin instance), \<open>construct globalData config\<close> the result
  of \<^verbatim>\<open>new pluginClass(this, this.globalData, config)\<close>.
\<close>

record pluginClass =
  getID :: "string option"
  construct :: "jsval \<Rightarrow> jsval \<Rightarrow> error + plugin"

section \<open>The Datalayer object\<close>

datatype promise = Pending | Resolved | Rejected

text \<open>
  The fields of \<^verbatim>\<open>class Datalayer\<close>, followed by the two parts of the page the
  methods touch: the lines written with \<^verbatim>\<open>console.warn\<close> and the number of times
  the clock has been read. \<^verbatim>\<open>broadcastHistory\<close> is a property that \<^verbatim>\<open>addPlugin\<close>
  reads and that neither the constructor nor any method assigns: \<open>None\<close> is
  \<^verbatim>\<open>undefined\<close>. The \<^verbatim>\<open>debug\<close> helper prints only when the build sets
  \<^verbatim>\<open>DEBUG\<close> and is left out; its arguments are still evaluated.
\<close>

record datalayer =
  initialized :: bool
  globalData :: jsval
  globalConfig :: jsval
  testModeActive :: bool
  plugins :: "plugin list"
  broadcastQueue :: "(string \<times> jsval) list"
  broadcastHistory :: "(string \<times> jsval) list option"
  readyPromise :: promise
  console_warn :: "string list"
  clock_reads :: nat

text \<open>
  The collaborators of the page that are not part of \<^verbatim>\<open>datalayer.js\<close>:
  \<open>now n\<close> is what the \<open>n\<close>-th evaluation of \<^verbatim>\<open>(new Date()).getTime()\<close> returns,
  and \<open>collectMetadata\<close> is \<^verbatim>\<open>utils.collectMetadata\<close> scanning the document for
  \<^verbatim>\<open>dal:data\<close> markup with the global data as its target: it is given the target's
  properties and returns them as it left them, with the error it threw, if any.
\<close>

record env =
  now :: "nat \<Rightarrow> int"
  collectMetadata :: "(string \<times> jsval) list \<Rightarrow> error option \<times> (string \<times> jsval) list"

text \<open>
  Every method returns the value it returned or the error it threw, and the object as
  it left it: what a method has assigned before it throws stays assigned.
\<close>

text \<open>
  \<^verbatim>\<open>constructor()\<close>; the argument is the result of the static
  \<^verbatim>\<open>isTestModeActive()\<close>, which reads the cookie and the URL.
\<close>

definition new_Datalayer :: "bool \<Rightarrow> datalayer" where
  "new_Datalayer testMode =
     \<lparr> initialized = False, globalData = Obj [], globalConfig = Obj [],
       testModeActive = testMode, plugins = [], broadcastQueue = [],
       broadcastHistory = None, readyPromise = Pending,
       console_warn = [], clock_reads = 0 \<rparr>"

subsection \<open>validateRule\<close>

text \<open>
  \<^verbatim>\<open>validateRule(rule)\<close>, one equation per kind of value, in the order of the
  source's tests: \<^verbatim>\<open>typeof rule === 'boolean'\<close>, \<^verbatim>\<open>typeof rule === 'function'\<close>,
  and then the test \<^verbatim>\<open>!rule.test || (rule.test === true && this.testModeActive)\<close>,
  whose read of \<^verbatim>\<open>rule.test\<close> throws on \<^verbatim>\<open>undefined\<close> and \<^verbatim>\<open>null\<close>.
  A number and a string have neither \<^verbatim>\<open>test\<close> nor \<^verbatim>\<open>rule\<close>: the test holds
  and the call \<^verbatim>\<open>rule.rule(...)\<close> throws. The method writes nothing, so it returns
  no object.
\<close>

fun validateRule :: "loadRule \<Rightarrow> datalayer \<Rightarrow> error + jsval" where
  "validateRule (RBool b) s = Inr (Bool b)"
| "validateRule (RFun f) s = f (globalData s)"
| "validateRule RUndefined s = Inl TypeError"
| "validateRule RNull s = Inl TypeError"
| "validateRule (RNum n) s = Inl TypeError"
| "validateRule (RStr x) s = Inl TypeError"
| "validateRule (RObj t r) s =
     (if \<not> truthy t \<or> (t = Bool True \<and> testModeActive s) then
        (case r of None \<Rightarrow> Inl TypeError | Some f \<Rightarrow> f (globalData s))
      else Inr (Bool False))"

subsection \<open>sendEventToPlugin and broadcast\<close>

text \<open>
  \<^verbatim>\<open>static sendEventToPlugin(plugin, eventName, eventData)\<close>, with the number of
  clock readings taken so far: a plugin without a \<^verbatim>\<open>handleEvent\<close> function is
  skipped, any other is called with the time read for this call. The result is what the
  handler threw, the plugin, and the number of clock readings.
\<close>

definition sendEventToPlugin ::
  "env \<Rightarrow> plugin \<Rightarrow> string \<Rightarrow> jsval \<Rightarrow> nat \<Rightarrow> error option \<times> plugin \<times> nat" where
  "sendEventToPlugin e p eventName eventData t =
     (case handleEvent p of
        None \<Rightarrow> (None, p, t)
      | Some h \<Rightarrow>
          (h (received p @ [(eventName, eventData, now e t)]),
           p\<lparr>received := received p @ [(eventName, eventData, now e t)]\<rparr>,
           Suc t))"

text \<open>
  The loop \<^verbatim>\<open>this.plugins.forEach(...)\<close> of \<^verbatim>\<open>broadcast\<close>: an exception
  leaves the loop, and the plugins after the one that threw are not reached.
\<close>

fun broadcast_forEach ::
  "env \<Rightarrow> string \<Rightarrow> jsval \<Rightarrow> plugin list \<Rightarrow> nat \<Rightarrow> error option \<times> plugin list \<times> nat" where
  "broadcast_forEach e name data [] t = (None, [], t)"
| "broadcast_forEach e name data (p # ps) t =
     (case sendEventToPlugin e p name data t of
        (Some err, p', t') \<Rightarrow> (Some err, p' # ps, t')
      | (None, p', t') \<Rightarrow>
          (case broadcast_forEach e name data ps t' of
             (r, ps', t'') \<Rightarrow> (r, p' # ps', t'')))"

text \<open>
  \<^verbatim>\<open>broadcast(name, data)\<close>: the loop first, then
  \<^verbatim>\<open>this.broadcastQueue.push([name, data])\<close>.
\<close>

definition broadcast ::
  "env \<Rightarrow> string \<Rightarrow> jsval \<Rightarrow> datalayer \<Rightarrow> (error + jsval) \<times> datalayer" where
  "broadcast e name data s =
     (case broadcast_forEach e name data (plugins s) (clock_reads s) of
        (Some err, ps', t') \<Rightarrow> (Inl err, s\<lparr>plugins := ps', clock_reads := t'\<rparr>)
      | (None, ps', t') \<Rightarrow>
          (Inr Undefined,
           s\<lparr>plugins := ps', clock_reads := t',
             broadcastQueue := broadcastQueue s @ [(name, data)]\<rparr>))"

subsection \<open>addPlugin\<close>

text \<open>
  The loop of \<^verbatim>\<open>addPlugin\<close> over \<^verbatim>\<open>i = 0 .. this.broadcastQueue.length - 1\<close>.
  Its body reads \<^verbatim>\<open>this.broadcastHistory[i]\<close>, which throws when
  \<^verbatim>\<open>broadcastHistory\<close> is \<^verbatim>\<open>undefined\<close>, and then \<^verbatim>\<open>event[0]\<close>, which
  throws when the array has no element \<open>i\<close>.
\<close>

fun addPlugin_loop ::
  "env \<Rightarrow> (string \<times> jsval) list option \<Rightarrow> nat list \<Rightarrow> plugin \<Rightarrow> nat
     \<Rightarrow> error option \<times> plugin \<times> nat" where
  "addPlugin_loop e h [] p t = (None, p, t)"
| "addPlugin_loop e h (i # is) p t =
     (case h of
        None \<Rightarrow> (Some TypeError, p, t)
      | Some evs \<Rightarrow>
          if i < length evs then
            (case sendEventToPlugin e p (fst (evs ! i)) (snd (evs ! i)) t of
               (Some err, p', t') \<Rightarrow> (Some err, p', t')
             | (None, p', t') \<Rightarrow> addPlugin_loop e h is p' t')
          else (Some TypeError, p, t))"

text \<open>
  \<^verbatim>\<open>addPlugin(pluginClass, config = {})\<close>. The new instance is pushed to
  \<^verbatim>\<open>this.plugins\<close> before the loop runs, so it stays there when the loop throws.
\<close>

definition addPlugin ::
  "env \<Rightarrow> pluginClass \<Rightarrow> jsval \<Rightarrow> datalayer \<Rightarrow> (error + jsval) \<times> datalayer" where
  "addPlugin e pluginClass config s =
     (case getID pluginClass of
        None \<Rightarrow> (Inl TypeError, s)
      | Some pluginId \<Rightarrow>
          (case get_prop (globalConfig s) pluginId of
             Inl err \<Rightarrow> (Inl err, s)
           | Inr gc \<Rightarrow>
               (case construct pluginClass (globalData s)
                       (if truthy gc then gc
                        else if config = Undefined then Obj [] else config) of
                  Inl err \<Rightarrow> (Inl err, s)
                | Inr plugin \<Rightarrow>
                    (case addPlugin_loop e (broadcastHistory s)
                            [0 ..< length (broadcastQueue s)] plugin (clock_reads s) of
                       (Some err, p', t') \<Rightarrow>
                         (Inl err, s\<lparr>plugins := plugins s @ [p'], clock_reads := t'\<rparr>)
                     | (None, p', t') \<Rightarrow>
                         (Inr Undefined,
                          s\<lparr>plugins := plugins s @ [p'], clock_reads := t'\<rparr>)))))"

subsection \<open>initialize\<close>

text \<open>
  \<^verbatim>\<open>scanForDataMarkup(window.document)\<close>: \<^verbatim>\<open>utils.collectMetadata\<close> updates
  the object \<^verbatim>\<open>this.globalData\<close> in place; a value that is no object has no
  properties to update.
\<close>

definition scanForDataMarkup :: "env \<Rightarrow> datalayer \<Rightarrow> error option \<times> datalayer" where
  "scanForDataMarkup e s =
     (case globalData s of
        Obj kvs \<Rightarrow>
          (case collectMetadata e kvs of (r, kvs') \<Rightarrow> (r, s\<lparr>globalData := Obj kvs'\<rparr>))
      | Undefined \<Rightarrow> (None, s)
      | Null \<Rightarrow> (None, s)
      | Bool b \<Rightarrow> (None, s)
      | Num n \<Rightarrow> (None, s)
      | Str x \<Rightarrow> (None, s))"

text \<open>
  The three checks of the mandatory data, each the source's condition with its
  short-circuit evaluation: \<^verbatim>\<open>!data.page || !data.page.type || !data.page.name\<close>,
  \<^verbatim>\<open>!data.site || !data.site.id\<close> and \<^verbatim>\<open>!data.user\<close>. The result is the
  \<^verbatim>\<open>Error\<close> the first failing check throws.
\<close>

definition page_missing :: "jsval \<Rightarrow> error + bool" where
  "page_missing data =
     (case get_prop data ''page'' of
        Inl err \<Rightarrow> Inl err
      | Inr page \<Rightarrow>
          if truthy page then
            (case get_prop page ''type'' of
               Inl err \<Rightarrow> Inl err
             | Inr ty \<Rightarrow>
                 if truthy ty then
                   (case get_prop page ''name'' of
                      Inl err \<Rightarrow> Inl err
                    | Inr nm \<Rightarrow> Inr (\<not> truthy nm))
                 else Inr True)
          else Inr True)"

definition site_missing :: "jsval \<Rightarrow> error + bool" where
  "site_missing data =
     (case get_prop data ''site'' of
        Inl err \<Rightarrow> Inl err
      | Inr site \<Rightarrow>
          if truthy site then
            (case get_prop site ''id'' of
               Inl err \<Rightarrow> Inl err
             | Inr i \<Rightarrow> Inr (\<not> truthy i))
          else Inr True)"

definition user_missing :: "jsval \<Rightarrow> error + bool" where
  "user_missing data =
     (case get_prop data ''user'' of
        Inl err \<Rightarrow> Inl err
      | Inr user \<Rightarrow> Inr (\<not> truthy user))"

definition validate_mandatory :: "jsval \<Rightarrow> error option" where
  "validate_mandatory data =
     (case page_missing data of
        Inl err \<Rightarrow> Some err
      | Inr True \<Rightarrow> Some (Error ''Supplied DALPageData is invalid or missing'')
      | Inr False \<Rightarrow>
          (case site_missing data of
             Inl err \<Rightarrow> Some err
           | Inr True \<Rightarrow> Some (Error ''Supplied DALSiteData is invalid or missing'')
           | Inr False \<Rightarrow>
               (case user_missing data of
                  Inl err \<Rightarrow> Some err
                | Inr True \<Rightarrow> Some (Error ''Supplied DALUserData is invalid or missing'')
                | Inr False \<Rightarrow> None)))"

text \<open>
  What \<^verbatim>\<open>initialize\<close> is handed: \<open>None\<close> is a call without an object
  (\<^verbatim>\<open>initialize()\<close>, \<^verbatim>\<open>initialize(null)\<close>). An absent \<^verbatim>\<open>data\<close> or
  \<^verbatim>\<open>config\<close> is \<open>Undefined\<close>; \<open>opt_plugins\<close> is the array
  \<^verbatim>\<open>options.plugins || []\<close>, each element with its \<^verbatim>\<open>type\<close>,
  \<^verbatim>\<open>config\<close> and \<^verbatim>\<open>rule\<close>.
\<close>

record pluginOptions =
  po_type :: pluginClass
  po_config :: jsval
  po_rule :: loadRule

record options =
  opt_data :: jsval
  opt_config :: jsval
  opt_plugins :: "pluginOptions list"

text \<open>The loop \<^verbatim>\<open>plugins.forEach(...)\<close> of \<^verbatim>\<open>initialize\<close>.\<close>

fun initialize_forEach ::
  "env \<Rightarrow> pluginOptions list \<Rightarrow> datalayer \<Rightarrow> error option \<times> datalayer" where
  "initialize_forEach e [] s = (None, s)"
| "initialize_forEach e (po # pos) s =
     (case validateRule (po_rule po) s of
        Inl err \<Rightarrow> (Some err, s)
      | Inr v \<Rightarrow>
          if truthy v then
            (case addPlugin e (po_type po) (po_config po) s of
               (Inl err, s') \<Rightarrow> (Some err, s')
             | (Inr u, s') \<Rightarrow> initialize_forEach e pos s')
          else initialize_forEach e pos s)"

text \<open>\<^verbatim>\<open>this.readyPromiseResolver()\<close>: a settled promise stays as it is.\<close>

fun readyPromiseResolver :: "promise \<Rightarrow> promise" where
  "readyPromiseResolver Pending = Resolved"
| "readyPromiseResolver Resolved = Resolved"
| "readyPromiseResolver Rejected = Rejected"

text \<open>
  The first statements of \<^verbatim>\<open>initialize\<close> once the guard is passed:
  \<^verbatim>\<open>data = options.data || {}\<close>, \<^verbatim>\<open>this.globalConfig = options.config || {}\<close>,
  \<^verbatim>\<open>this.globalData = data\<close> and the scan of the document. \<^verbatim>\<open>data\<close> and
  \<^verbatim>\<open>this.globalData\<close> are one object, so what the scan merged is part of the
  data the checks then read.
\<close>

definition initialize_collect :: "env \<Rightarrow> options \<Rightarrow> datalayer \<Rightarrow> error option \<times> datalayer" where
  "initialize_collect e opts s =
     scanForDataMarkup e
       (s\<lparr>globalConfig := (if truthy (opt_config opts) then opt_config opts else Obj []),
          globalData := (if truthy (opt_data opts) then opt_data opts else Obj [])\<rparr>)"

text \<open>
  \<^verbatim>\<open>initialize(options)\<close>, statement by statement up to the bare \<^verbatim>\<open>return\<close>
  that follows \<^verbatim>\<open>this.readyPromiseResolver()\<close>; the statements after it are never
  reached and have no counterpart here.
\<close>

definition initialize ::
  "env \<Rightarrow> options option \<Rightarrow> datalayer \<Rightarrow> (error + jsval) \<times> datalayer" where
  "initialize e options s =
     (if initialized s then
        (Inr (Bool False), s\<lparr>console_warn := console_warn s @ [''already initialized'']\<rparr>)
      else
        (case options of
           None \<Rightarrow> (Inl TypeError, s)
         | Some opts \<Rightarrow>
             (case initialize_collect e opts s of
                (Some err, s1) \<Rightarrow> (Inl err, s1)
              | (None, s1) \<Rightarrow>
                  (case validate_mandatory (globalData s1) of
                     Some err \<Rightarrow> (Inl err, s1)
                   | None \<Rightarrow>
                       (case initialize_forEach e (opt_plugins opts) s1 of
                          (Some err, s2) \<Rightarrow> (Inl err, s2)
                        | (None, s2) \<Rightarrow>
                            (case broadcast e ''initialize'' (globalData s2)
                                    (s2\<lparr>initialized := True\<rparr>) of
                               (Inl err, s3) \<Rightarrow> (Inl err, s3)
                             | (Inr u, s3) \<Rightarrow>
                                 (Inr Undefined,
                                  s3\<lparr>readyPromise :=
                                       readyPromiseResolver (readyPromise s3)\<rparr>)))))))"

section \<open>The fixtures of the test suite\<close>

text \<open>
  \<^verbatim>\<open>globalDataMock\<close> and \<^verbatim>\<open>MockPlugin\<close> of \<^verbatim>\<open>datalayer.spec.js\<close> (its
  handler stores the event and never throws), a plugin class whose instances have no
  \<^verbatim>\<open>handleEvent\<close>, one whose handler always throws, and a page whose clock advances by
  one millisecond between two readings and whose document has no data markup.
\<close>

definition globalDataMock :: jsval where
  "globalDataMock =
     Obj [(''site'', Obj [(''id'', Str ''mysite'')]),
          (''page'', Obj [(''name'', Str ''foo''), (''type'', Str ''bar'')]),
          (''user'', Obj [])]"

definition mockInstance :: plugin where
  "mockInstance =
     \<lparr> plugin_id = ''test/mockPlugin'', handleEvent = Some (\<lambda>calls. None), received = [] \<rparr>"

definition MockPlugin :: pluginClass where
  "MockPlugin = \<lparr> getID = Some ''test/mockPlugin'', construct = (\<lambda>d c. Inr mockInstance) \<rparr>"

definition deafInstance :: plugin where
  "deafInstance = \<lparr> plugin_id = ''test/deafPlugin'', handleEvent = None, received = [] \<rparr>"

definition DeafPlugin :: pluginClass where
  "DeafPlugin = \<lparr> getID = Some ''test/deafPlugin'', construct = (\<lambda>d c. Inr deafInstance) \<rparr>"

definition throwingInstance :: plugin where
  "throwingInstance =
     \<lparr> plugin_id = ''test/throwingPlugin'',
       handleEvent = Some (\<lambda>calls. Some (Error ''handler failed'')), received = [] \<rparr>"

definition ThrowingPlugin :: pluginClass where
  "ThrowingPlugin =
     \<lparr> getID = Some ''test/throwingPlugin'', construct = (\<lambda>d c. Inr throwingInstance) \<rparr>"

definition page_env :: env where
  "page_env = \<lparr> now = (\<lambda>n. 1000 + int n), collectMetadata = (\<lambda>kvs. (None, kvs)) \<rparr>"

text \<open>
  The options of the test suite: the mock data with one \<^verbatim>\<open>MockPlugin\<close> under the
  rule \<^verbatim>\<open>true\<close>, and the three incomplete data objects of the test
  \<^verbatim>\<open>should properly recognize invalid and/or missing data\<close>.
\<close>

definition mockOptions :: options where
  "mockOptions =
     \<lparr> opt_data = globalDataMock, opt_config = Undefined,
       opt_plugins = [\<lparr> po_type = MockPlugin, po_config = Undefined, po_rule = RBool True \<rparr>] \<rparr>"

definition emptyPageOptions :: options where
  "emptyPageOptions =
     \<lparr> opt_data = Obj [(''page'', Obj [])],
       opt_config = Obj [(''test/mockPlugin'', Obj [(''account'', Num 7)])],
       opt_plugins = [] \<rparr>"

definition pageOnlyOptions :: options where
  "pageOnlyOptions =
     \<lparr> opt_data = Obj [(''page'', Obj [(''name'', Str ''foo''), (''type'', Str ''bar'')])],
       opt_config = Undefined, opt_plugins = [] \<rparr>"

definition pageSiteOptions :: options where
  "pageSiteOptions =
     \<lparr> opt_data = Obj [(''page'', Obj [(''name'', Str ''foo''), (''type'', Str ''bar'')]),
                       (''site'', Obj [(''id'', Str ''mysite'')])],
       opt_config = Undefined, opt_plugins = [] \<rparr>"

text \<open>
  A new datalayer after \<^verbatim>\<open>broadcast('x', {a: 1})\<close>, and new datalayers to which
  plugins have been added with \<^verbatim>\<open>addPlugin\<close> before any broadcast.
\<close>

definition eventX :: jsval where
  "eventX = Obj [(''a'', Num 1)]"

definition afterBroadcastX :: datalayer where
  "afterBroadcastX = snd (broadcast page_env ''x'' eventX (new_Datalayer False))"

definition withTwoMocks :: datalayer where
  "withTwoMocks =
     snd (addPlugin page_env MockPlugin Undefined
       (snd (addPlugin page_env MockPlugin Undefined (new_Datalayer False))))"

definition withThrowing :: datalayer where
  "withThrowing =
     snd (addPlugin page_env MockPlugin Undefined
       (snd (addPlugin page_env ThrowingPlugin Undefined
         (snd (addPlugin page_env MockPlugin Undefined (new_Datalayer False))))))"

definition withDeaf :: datalayer where
  "withDeaf =
     snd (addPlugin page_env MockPlugin Undefined
       (snd (addPlugin page_env DeafPlugin Undefined
         (snd (addPlugin page_env MockPlugin Undefined (new_Datalayer False))))))"

section \<open>Auxiliary facts\<close>

subsection \<open>Reading the mandatory data\<close>

lemma truthy_get_prop: "truthy v \<Longrightarrow> get_prop v k = Inr (read_prop v k)"
  by (cases v) (simp_all add: read_prop_def)

lemma truthy_read_prop: "truthy (read_prop v k) \<Longrightarrow> truthy v"
  by (cases v) (simp_all add: read_prop_def)

lemma page_missing_truthy:
  "truthy d \<Longrightarrow> page_missing d =
     Inr (\<not> (truthy (read_prop d ''page'') \<and> truthy (read_prop (read_prop d ''page'') ''type'')
            \<and> truthy (read_prop (read_prop d ''page'') ''name'')))"
  by (simp add: page_missing_def truthy_get_prop)

lemma site_missing_truthy:
  "truthy d \<Longrightarrow> site_missing d =
     Inr (\<not> (truthy (read_prop d ''site'') \<and> truthy (read_prop (read_prop d ''site'') ''id'')))"
  by (simp add: site_missing_def truthy_get_prop)

lemma user_missing_truthy:
  "truthy d \<Longrightarrow> user_missing d = Inr (\<not> truthy (read_prop d ''user''))"
  by (simp add: user_missing_def truthy_get_prop)

lemma validate_mandatory_truthy:
  assumes "truthy d"
  shows "validate_mandatory d =
    (if \<not> (truthy (read_prop d ''page'') \<and> truthy (read_prop (read_prop d ''page'') ''type'')
            \<and> truthy (read_prop (read_prop d ''page'') ''name''))
     then Some (Error ''Supplied DALPageData is invalid or missing'')
     else if \<not> (truthy (read_prop d ''site'') \<and> truthy (read_prop (read_prop d ''site'') ''id''))
     then Some (Error ''Supplied DALSiteData is invalid or missing'')
     else if \<not> truthy (read_prop d ''user'')
     then Some (Error ''Supplied DALUserData is invalid or missing'')
     else None)"
  unfolding validate_mandatory_def
  by (simp only: page_missing_truthy[OF assms] site_missing_truthy[OF assms] user_missing_truthy[OF assms])
     (simp split: bool.splits)

subsection \<open>What each method leaves untouched\<close>

lemma scanForDataMarkup_frame:
  "scanForDataMarkup e s = (r, s1) \<Longrightarrow> s1 = s\<lparr>globalData := globalData s1\<rparr> \<and> (truthy (globalData s) \<longrightarrow> truthy (globalData s1))"
  by (auto simp: scanForDataMarkup_def split: jsval.splits prod.splits)

lemma initialize_collect_frame:
  assumes "initialize_collect e opts s = (r, s1)"
  shows "s1 = s\<lparr>globalConfig := (if truthy (opt_config opts) then opt_config opts else Obj []),
               globalData := globalData s1\<rparr>"
    and "truthy (globalData s1)"
  using assms scanForDataMarkup_frame[of e "s\<lparr>globalConfig := (if truthy (opt_config opts) then opt_config opts else Obj []),
          globalData := (if truthy (opt_data opts) then opt_data opts else Obj [])\<rparr>" r s1]
  unfolding initialize_collect_def by (auto split: if_splits)

lemma addPlugin_frame:
  "addPlugin e c cfg s = (r, s') \<Longrightarrow>
     initialized s' = initialized s \<and> globalData s' = globalData s \<and>
     globalConfig s' = globalConfig s \<and> testModeActive s' = testModeActive s \<and>
     broadcastQueue s' = broadcastQueue s \<and> broadcastHistory s' = broadcastHistory s \<and>
     readyPromise s' = readyPromise s \<and> console_warn s' = console_warn s"
  by (auto simp: addPlugin_def split: option.splits sum.splits prod.splits)

lemma initialize_forEach_frame:
  "initialize_forEach e pos s = (r, s') \<Longrightarrow>
     initialized s' = initialized s \<and> globalData s' = globalData s \<and>
     globalConfig s' = globalConfig s \<and> testModeActive s' = testModeActive s \<and>
     broadcastQueue s' = broadcastQueue s \<and> broadcastHistory s' = broadcastHistory s \<and>
     readyPromise s' = readyPromise s \<and> console_warn s' = console_warn s"
proof (induction pos arbitrary: s)
  case Nil
  then show ?case by simp
next
  case (Cons po pos)
  show ?case
  proof (cases "validateRule (po_rule po) s")
    case (Inl err)
    with Cons.prems show ?thesis by simp
  next
    case (Inr v)
    show ?thesis
    proof (cases "truthy v")
      case False
      with Inr Cons.prems Cons.IH[of s] show ?thesis by simp
    next
      case True
      obtain r1 s1 where a: "addPlugin e (po_type po) (po_config po) s = (r1, s1)"
        by (cases "addPlugin e (po_type po) (po_config po) s") auto
      note f = addPlugin_frame[OF a]
      show ?thesis
      proof (cases r1)
        case (Inl err)
        with a Inr True Cons.prems f show ?thesis by simp
      next
        case (Inr u)
        with a \<open>validateRule (po_rule po) s = Inr v\<close> True Cons.prems
        have "initialize_forEach e pos s1 = (r, s')" by simp
        from Cons.IH[OF this] f show ?thesis by simp
      qed
    qed
  qed
qed

lemma broadcast_frame:
  "broadcast e n d s = (r, s') \<Longrightarrow>
     initialized s' = initialized s \<and> globalData s' = globalData s \<and>
     globalConfig s' = globalConfig s \<and> testModeActive s' = testModeActive s \<and>
     broadcastHistory s' = broadcastHistory s \<and>
     readyPromise s' = readyPromise s \<and> console_warn s' = console_warn s"
  by (auto simp: broadcast_def split: option.splits prod.splits)

lemma broadcast_queue:
  "broadcast e n d s = (r, s') \<Longrightarrow>
     broadcastQueue s' = (case r of Inl err \<Rightarrow> broadcastQueue s | Inr v \<Rightarrow> broadcastQueue s @ [(n, d)])"
  by (auto simp: broadcast_def split: option.splits prod.splits)

subsection \<open>The delivery loop of broadcast\<close>

text \<open>
  One delivery: the plugin it leaves, the error it raises and the clock readings it takes.
\<close>

lemma sendEventToPlugin_plugin:
  "fst (snd (sendEventToPlugin e p n d t)) =
     (case handleEvent p of None \<Rightarrow> p
      | Some h \<Rightarrow> p\<lparr>received := received p @ [(n, d, now e t)]\<rparr>)"
  by (simp add: sendEventToPlugin_def split: option.splits)

lemma sendEventToPlugin_result:
  "fst (sendEventToPlugin e p n d t) =
     (case handleEvent p of None \<Rightarrow> None
      | Some h \<Rightarrow> h (received p @ [(n, d, now e t)]))"
  by (simp add: sendEventToPlugin_def split: option.splits)

lemma sendEventToPlugin_ticks:
  "snd (snd (sendEventToPlugin e p n d t)) = (if handleEvent p = None then t else Suc t)"
  by (simp add: sendEventToPlugin_def split: option.splits)

text \<open>
  A loop that completes serves plugin \<open>i\<close> with the clock reading numbered by the
  plugins with a handler before it, and every handler has returned; a loop that throws at
  plugin \<open>k\<close> has served the plugins up to \<open>k\<close> in the same way, the handlers before
  \<open>k\<close> have returned, and it has not touched the others. A plugin without a handler
  can be taken out of the list without any change to what the loop does to the rest.
\<close>

lemma broadcast_forEach_length:
  "broadcast_forEach e n d ps t = (r, ps', t') \<Longrightarrow> length ps' = length ps"
  by (induction ps arbitrary: t r ps' t') (auto split: prod.splits option.splits)

lemma broadcast_forEach_ticks:
  "broadcast_forEach e n d ps t = (None, ps', t') \<Longrightarrow>
     t' = t + length (filter (\<lambda>p. handleEvent p \<noteq> None) ps)"
proof (induction ps arbitrary: t ps' t')
  case Nil
  then show ?case by simp
next
  case (Cons p ps)
  obtain r1 p1 t1 where s: "sendEventToPlugin e p n d t = (r1, p1, t1)"
    by (cases "sendEventToPlugin e p n d t") auto
  with Cons.prems have r1: "r1 = None" by (auto split: option.splits prod.splits)
  obtain r2 ps2 t2 where b: "broadcast_forEach e n d ps t1 = (r2, ps2, t2)"
    by (cases "broadcast_forEach e n d ps t1") auto
  from Cons.prems s r1 b have "r2 = None" "t2 = t'" by auto
  with Cons.IH[of t1 ps2 t2] b have "t' = t1 + length (filter (\<lambda>p. handleEvent p \<noteq> None) ps)" by simp
  moreover from s sendEventToPlugin_ticks[of e p n d t] have "t1 = (if handleEvent p = None then t else Suc t)" by simp
  ultimately show ?case by simp
qed

lemma broadcast_forEach_nth:
  "broadcast_forEach e n d ps t = (None, ps', t') \<Longrightarrow> i < length ps \<Longrightarrow>
     ps' ! i = fst (snd (sendEventToPlugin e (ps ! i) n d
                 (t + length (filter (\<lambda>p. handleEvent p \<noteq> None) (take i ps)))))"
proof (induction ps arbitrary: t ps' t' i)
  case Nil
  then show ?case by simp
next
  case (Cons p ps)
  obtain r1 p1 t1 where s: "sendEventToPlugin e p n d t = (r1, p1, t1)"
    by (cases "sendEventToPlugin e p n d t") auto
  with Cons.prems have r1: "r1 = None" by (auto split: option.splits prod.splits)
  obtain r2 ps2 t2 where b: "broadcast_forEach e n d ps t1 = (r2, ps2, t2)"
    by (cases "broadcast_forEach e n d ps t1") auto
  from Cons.prems s r1 b have r2: "r2 = None" and ps': "ps' = p1 # ps2" by auto
  from s sendEventToPlugin_ticks[of e p n d t] have t1: "t1 = (if handleEvent p = None then t else Suc t)" by simp
  show ?case
  proof (cases i)
    case 0
    with ps' s show ?thesis by simp
  next
    case (Suc j)
    with Cons.prems have "j < length ps" by simp
    from Cons.IH[OF b[unfolded r2] this] Suc ps' t1 show ?thesis by simp
  qed
qed

lemma broadcast_forEach_returned:
  "broadcast_forEach e n d ps t = (None, ps', t') \<Longrightarrow> i < length ps \<Longrightarrow>
     fst (sendEventToPlugin e (ps ! i) n d
            (t + length (filter (\<lambda>p. handleEvent p \<noteq> None) (take i ps)))) = None"
proof (induction ps arbitrary: t ps' t' i)
  case Nil
  then show ?case by simp
next
  case (Cons p ps)
  obtain r1 p1 t1 where s: "sendEventToPlugin e p n d t = (r1, p1, t1)"
    by (cases "sendEventToPlugin e p n d t") auto
  with Cons.prems have r1: "r1 = None" by (auto split: option.splits prod.splits)
  obtain r2 ps2 t2 where b: "broadcast_forEach e n d ps t1 = (r2, ps2, t2)"
    by (cases "broadcast_forEach e n d ps t1") auto
  from Cons.prems s r1 b have r2: "r2 = None" by auto
  from s sendEventToPlugin_ticks[of e p n d t]
  have t1: "t1 = (if handleEvent p = None then t else Suc t)" by simp
  show ?case
  proof (cases i)
    case 0
    with s r1 show ?thesis by simp
  next
    case (Suc j)
    with Cons.prems have "j < length ps" by simp
    have "t + length (filter (\<lambda>p. handleEvent p \<noteq> None) (take (Suc j) (p # ps)))
            = t1 + length (filter (\<lambda>p. handleEvent p \<noteq> None) (take j ps))"
      using t1 by simp
    with Cons.IH[OF b[unfolded r2] \<open>j < length ps\<close>] Suc show ?thesis by simp
  qed
qed

lemma broadcast_forEach_throw:
  "broadcast_forEach e n d ps t = (Some err, ps', t') \<Longrightarrow>
     \<exists>k<length ps.
        fst (sendEventToPlugin e (ps ! k) n d
               (t + length (filter (\<lambda>p. handleEvent p \<noteq> None) (take k ps)))) = Some err \<and>
        (\<forall>i\<le>k. ps' ! i = fst (snd (sendEventToPlugin e (ps ! i) n d
                 (t + length (filter (\<lambda>p. handleEvent p \<noteq> None) (take i ps)))))) \<and>
        (\<forall>i. k < i \<and> i < length ps \<longrightarrow> ps' ! i = ps ! i) \<and>
        (\<forall>i<k. fst (sendEventToPlugin e (ps ! i) n d
               (t + length (filter (\<lambda>p. handleEvent p \<noteq> None) (take i ps)))) = None)"
proof (induction ps arbitrary: t ps' t')
  case Nil
  then show ?case by simp
next
  case (Cons p ps)
  obtain r1 p1 t1 where s: "sendEventToPlugin e p n d t = (r1, p1, t1)"
    by (cases "sendEventToPlugin e p n d t") auto
  show ?case
  proof (cases r1)
    case (Some e1)
    with Cons.prems s have "err = e1" "ps' = p1 # ps" by auto
    with s Some have
      "fst (sendEventToPlugin e ((p # ps) ! 0) n d
              (t + length (filter (\<lambda>p. handleEvent p \<noteq> None) (take 0 (p # ps))))) = Some err \<and>
       (\<forall>i\<le>0. ps' ! i = fst (snd (sendEventToPlugin e ((p # ps) ! i) n d
                 (t + length (filter (\<lambda>p. handleEvent p \<noteq> None) (take i (p # ps))))))) \<and>
       (\<forall>i. 0 < i \<and> i < length (p # ps) \<longrightarrow> ps' ! i = (p # ps) ! i) \<and>
       (\<forall>i<0. fst (sendEventToPlugin e ((p # ps) ! i) n d
               (t + length (filter (\<lambda>p. handleEvent p \<noteq> None) (take i (p # ps))))) = None)"
      by (auto simp: nth_Cons split: nat.splits)
    then show ?thesis by (intro exI[of _ 0]) simp
  next
    case None
    obtain r2 ps2 t2 where b: "broadcast_forEach e n d ps t1 = (r2, ps2, t2)"
      by (cases "broadcast_forEach e n d ps t1") auto
    from Cons.prems s None b have r2: "r2 = Some err" and ps': "ps' = p1 # ps2" by auto
    from s sendEventToPlugin_ticks[of e p n d t]
    have t1: "t1 = (if handleEvent p = None then t else Suc t)" by simp
    from Cons.IH[OF b[unfolded r2]] obtain k where k: "k < length ps"
      and thr: "fst (sendEventToPlugin e (ps ! k) n d
               (t1 + length (filter (\<lambda>p. handleEvent p \<noteq> None) (take k ps)))) = Some err"
      and pre: "\<forall>i\<le>k. ps2 ! i = fst (snd (sendEventToPlugin e (ps ! i) n d
                 (t1 + length (filter (\<lambda>p. handleEvent p \<noteq> None) (take i ps)))))"
      and post: "\<forall>i. k < i \<and> i < length ps \<longrightarrow> ps2 ! i = ps ! i"
      and ret: "\<forall>i<k. fst (sendEventToPlugin e (ps ! i) n d
               (t1 + length (filter (\<lambda>p. handleEvent p \<noteq> None) (take i ps)))) = None"
      by blast
    have shift: "\<And>j. t + length (filter (\<lambda>p. handleEvent p \<noteq> None) (take (Suc j) (p # ps)))
                   = t1 + length (filter (\<lambda>p. handleEvent p \<noteq> None) (take j ps))"
      using t1 by simp
    have a: "fst (sendEventToPlugin e ((p # ps) ! Suc k) n d
              (t + length (filter (\<lambda>p. handleEvent p \<noteq> None) (take (Suc k) (p # ps))))) = Some err"
      using thr shift[of k] by simp
    have b': "\<forall>i\<le>Suc k. ps' ! i = fst (snd (sendEventToPlugin e ((p # ps) ! i) n d
                 (t + length (filter (\<lambda>p. handleEvent p \<noteq> None) (take i (p # ps))))))"
    proof (intro allI impI)
      fix i assume i: "i \<le> Suc k"
      show "ps' ! i = fst (snd (sendEventToPlugin e ((p # ps) ! i) n d
                 (t + length (filter (\<lambda>p. handleEvent p \<noteq> None) (take i (p # ps))))))"
      proof (cases i)
        case 0
        with ps' s show ?thesis by simp
      next
        case (Suc j)
        with i have "j \<le> k" by simp
        with pre have "ps2 ! j = fst (snd (sendEventToPlugin e (ps ! j) n d
                 (t1 + length (filter (\<lambda>p. handleEvent p \<noteq> None) (take j ps)))))" by blast
        with Suc ps' shift[of j] show ?thesis by simp
      qed
    qed
    have c: "\<forall>i. Suc k < i \<and> i < length (p # ps) \<longrightarrow> ps' ! i = (p # ps) ! i"
    proof (intro allI impI)
      fix i assume i: "Suc k < i \<and> i < length (p # ps)"
      then obtain j where j: "i = Suc j" by (cases i) auto
      with i have "k < j \<and> j < length ps" by simp
      with post have "ps2 ! j = ps ! j" by blast
      with j ps' show "ps' ! i = (p # ps) ! i" by simp
    qed
    have d': "\<forall>i<Suc k. fst (sendEventToPlugin e ((p # ps) ! i) n d
                 (t + length (filter (\<lambda>p. handleEvent p \<noteq> None) (take i (p # ps))))) = None"
    proof (intro allI impI)
      fix i assume i: "i < Suc k"
      show "fst (sendEventToPlugin e ((p # ps) ! i) n d
                 (t + length (filter (\<lambda>p. handleEvent p \<noteq> None) (take i (p # ps))))) = None"
      proof (cases i)
        case 0
        with s None show ?thesis by simp
      next
        case (Suc j)
        with i have "j < k" by simp
        with ret have "fst (sendEventToPlugin e (ps ! j) n d
                 (t1 + length (filter (\<lambda>p. handleEvent p \<noteq> None) (take j ps)))) = None" by blast
        with Suc shift[of j] show ?thesis by simp
      qed
    qed
    from k have "Suc k < length (p # ps)" by simp
    with a b' c d' show ?thesis by blast
  qed
qed

lemma broadcast_forEach_skip:
  "handleEvent p = None \<Longrightarrow>
     broadcast_forEach e n d (ps @ p # qs) t =
       (case broadcast_forEach e n d (ps @ qs) t of
          (r, R, t') \<Rightarrow> (r, take (length ps) R @ p # drop (length ps) R, t'))"
proof (induction ps arbitrary: t)
  case Nil
  then show ?case by (simp add: sendEventToPlugin_def split: prod.splits)
next
  case (Cons x ps)
  then show ?case by (simp split: prod.splits option.splits)
qed

subsection \<open>initialize\<close>

lemma initialize_success_initialized:
  assumes "initialize e opts s = (Inr r, s1)"
  shows "initialized s1"
proof (cases "initialized s")
  case True
  with assms show ?thesis by (auto simp: initialize_def)
next
  case False
  with assms obtain o' s2 s3 u where
    b: "broadcast e ''initialize'' (globalData s2) (s2\<lparr>initialized := True\<rparr>) = (Inr u, s3)"
    and s1: "s1 = s3\<lparr>readyPromise := readyPromiseResolver (readyPromise s3)\<rparr>"
    by (auto simp: initialize_def split: option.splits prod.splits sum.splits)
  from broadcast_frame[OF b] s1 show ?thesis by simp
qed

lemma initialize_invalid:
  assumes "\<not> initialized s" and "initialize_collect e opts s = (None, s1)"
    and "validate_mandatory (globalData s1) = Some err"
  shows "initialize e (Some opts) s = (Inl err, s1)"
  using assms by (simp add: initialize_def)

subsection \<open>Unfolding the fixtures\<close>

lemmas fixture_defs = new_Datalayer_def page_env_def globalDataMock_def
  mockInstance_def MockPlugin_def deafInstance_def DeafPlugin_def
  throwingInstance_def ThrowingPlugin_def mockOptions_def emptyPageOptions_def
  pageOnlyOptions_def pageSiteOptions_def eventX_def afterBroadcastX_def
  withTwoMocks_def withThrowing_def withDeaf_def

lemmas method_defs = initialize_def initialize_collect_def scanForDataMarkup_def
  validate_mandatory_def page_missing_def site_missing_def user_missing_def
  broadcast_def addPlugin_def sendEventToPlugin_def

section \<open>Catch-up delivery at admission\<close>

text \<open>
  The loop of \<^verbatim>\<open>addPlugin\<close> reads \<^verbatim>\<open>this.broadcastHistory\<close>, a property no
  statement of the class assigns, while the events are kept in \<^verbatim>\<open>this.broadcastQueue\<close>.
  With at least one event recorded, the first pass of the loop throws a \<^verbatim>\<open>TypeError\<close>
  after the new plugin has been pushed, and the plugin is sent nothing.
\<close>

lemma addPlugin_loop_no_history:
  "is \<noteq> [] \<Longrightarrow> addPlugin_loop e None is p t = (Some TypeError, p, t)"
  by (cases "is") simp_all

lemma addPlugin_no_catch_up:
  assumes "getID c = Some pid" and "get_prop (globalConfig s) pid = Inr gc"
    and "construct c (globalData s)
           (if truthy gc then gc else if cfg = Undefined then Obj [] else cfg) = Inr p"
    and "broadcastHistory s = None" and "broadcastQueue s \<noteq> []"
  shows "addPlugin e c cfg s = (Inl TypeError, s\<lparr>plugins := plugins s @ [p]\<rparr>)"
proof -
  from assms(5) have "[0 ..< length (broadcastQueue s)] \<noteq> []" by simp
  from addPlugin_loop_no_history[OF this, of e p "clock_reads s"] assms(1-4)
  show ?thesis by (simp add: addPlugin_def)
qed

text \<open>
  C1 states that a plugin admitted after \<open>N\<close> broadcasts is sent these \<open>N\<close> events, in
  order, before \<^verbatim>\<open>addPlugin\<close> returns, and that a plugin admitted by \<^verbatim>\<open>initialize\<close>
  after a broadcast \<^verbatim>\<open>'x'\<close> receives \<^verbatim>\<open>'x'\<close> before \<^verbatim>\<open>'initialize'\<close>. The
  code does not do so. On a new datalayer, after \<^verbatim>\<open>broadcast('x', {a: 1})\<close>, the call
  \<^verbatim>\<open>addPlugin(MockPlugin)\<close> throws a \<^verbatim>\<open>TypeError\<close> and leaves the new plugin in
  the list with no event received; \<^verbatim>\<open>initialize\<close> with \<^verbatim>\<open>MockPlugin\<close> among its
  plugins throws the same error, stays uninitialized and broadcasts no \<^verbatim>\<open>'initialize'\<close>.
\<close>

theorem addPlugin_after_broadcast_throws:
  "broadcastQueue afterBroadcastX = [(''x'', eventX)] \<and>
   fst (addPlugin page_env MockPlugin Undefined afterBroadcastX) = Inl TypeError \<and>
   map received (plugins (snd (addPlugin page_env MockPlugin Undefined afterBroadcastX))) = [[]] \<and>
   fst (initialize page_env (Some mockOptions) afterBroadcastX) = Inl TypeError \<and>
   initialized (snd (initialize page_env (Some mockOptions) afterBroadcastX)) = False \<and>
   map received (plugins (snd (initialize page_env (Some mockOptions) afterBroadcastX))) = [[]]"
  by (simp add: fixture_defs method_defs)

section \<open>Broadcast: delivery and history\<close>

text \<open>
  C2, as the spec states it, fails: the event is recorded after the deliveries, not
  before. With a plugin whose handler throws between two \<^verbatim>\<open>MockPlugin\<close>s, a broadcast
  of \<^verbatim>\<open>'x'\<close> reaches the first two plugins, throws, and leaves the history empty.
\<close>

theorem broadcast_records_first_counterexample:
  "fst (broadcast page_env ''x'' eventX withThrowing) = Inl (Error ''handler failed'') \<and>
   broadcastQueue (snd (broadcast page_env ''x'' eventX withThrowing)) = [] \<and>
   map received (plugins (snd (broadcast page_env ''x'' eventX withThrowing)))
     = [[(''x'', eventX, 1000)], [(''x'', eventX, 1001)], []]"
  by (simp add: fixture_defs method_defs)

text \<open>
  C2, amended. \<^verbatim>\<open>broadcast(name, data)\<close> first calls \<^verbatim>\<open>handleEvent\<close> once, with
  this name and data, on each plugin that has such a function, in the order of the list, and
  leaves a plugin without one as it is; the list keeps its length. The outcome is fixed by
  the handlers. Below, \<open>call i\<close> is the call plugin \<open>i\<close> is handed (its timestamp the
  clock reading of that delivery), \<open>throws i err\<close> says that the handler of plugin \<open>i\<close>
  throws \<open>err\<close> on it, and \<open>served i p'\<close> says that \<open>p'\<close> is plugin \<open>i\<close> after exactly
  this one call. When no handler throws, \<^verbatim>\<open>broadcast\<close> returns \<^verbatim>\<open>undefined\<close>, every
  plugin has been served, and \<^verbatim>\<open>[name, data]\<close> has then been appended to the history.
  When a handler throws, then for the first plugin \<open>k\<close> whose handler does,
  \<^verbatim>\<open>broadcast\<close> throws that error, the plugins up to \<open>k\<close> have been served, those after
  \<open>k\<close> are not reached, and the event is not recorded.
\<close>

theorem broadcast_delivers_then_records:
  fixes e name data s
  defines "tick \<equiv> \<lambda>i. clock_reads s +
             length (filter (\<lambda>p. handleEvent p \<noteq> None) (take i (plugins s)))"
  defines "call \<equiv> \<lambda>i. (name, data, now e (tick i))"
  defines "throws \<equiv> \<lambda>i err. \<exists>h. handleEvent (plugins s ! i) = Some h \<and>
             h (received (plugins s ! i) @ [call i]) = Some err"
  defines "served \<equiv> \<lambda>i p'. case handleEvent (plugins s ! i) of
               None \<Rightarrow> p' = plugins s ! i
             | Some h \<Rightarrow> p' = (plugins s ! i)\<lparr>received := received (plugins s ! i) @ [call i]\<rparr>"
  assumes "broadcast e name data s = (r, s')"
  shows "length (plugins s') = length (plugins s) \<and>
    (if \<exists>k<length (plugins s). \<exists>err. throws k err
     then \<exists>k<length (plugins s). \<exists>err.
            throws k err \<and> (\<forall>i<k. \<forall>x. \<not> throws i x) \<and>
            r = Inl err \<and>
            broadcastQueue s' = broadcastQueue s \<and>
            (\<forall>i\<le>k. served i (plugins s' ! i)) \<and>
            (\<forall>i. k < i \<and> i < length (plugins s) \<longrightarrow> plugins s' ! i = plugins s ! i)
     else r = Inr Undefined \<and>
          broadcastQueue s' = broadcastQueue s @ [(name, data)] \<and>
          (\<forall>i<length (plugins s). served i (plugins s' ! i)))"
proof -
  have thr: "\<And>i x. throws i x \<longleftrightarrow>
               fst (sendEventToPlugin e (plugins s ! i) name data (tick i)) = Some x"
    unfolding throws_def call_def by (auto simp: sendEventToPlugin_result split: option.splits)
  have srv: "\<And>i p'. served i p' \<longleftrightarrow>
               p' = fst (snd (sendEventToPlugin e (plugins s ! i) name data (tick i)))"
    unfolding served_def call_def by (auto simp: sendEventToPlugin_plugin split: option.splits)
  obtain r0 ps' t' where fe:
    "broadcast_forEach e name data (plugins s) (clock_reads s) = (r0, ps', t')"
    by (cases "broadcast_forEach e name data (plugins s) (clock_reads s)") auto
  have len: "length ps' = length (plugins s)" by (rule broadcast_forEach_length[OF fe])
  show ?thesis
  proof (cases r0)
    case None
    with fe assms have r: "r = Inr Undefined" and ps: "plugins s' = ps'"
      and q: "broadcastQueue s' = broadcastQueue s @ [(name, data)]"
      by (auto simp: broadcast_def)
    have no: "\<not> (\<exists>k<length (plugins s). \<exists>err. throws k err)"
      using broadcast_forEach_returned[OF fe[unfolded None]] unfolding thr tick_def by auto
    have all: "\<forall>i<length (plugins s). served i (ps' ! i)"
      using broadcast_forEach_nth[OF fe[unfolded None]] unfolding srv tick_def by auto
    from no all r q len show ?thesis unfolding ps by simp
  next
    case (Some err)
    with fe assms have r: "r = Inl err" and ps: "plugins s' = ps'"
      and q: "broadcastQueue s' = broadcastQueue s"
      by (auto simp: broadcast_def)
    from broadcast_forEach_throw[OF fe[unfolded Some]] obtain k where
      k: "k < length (plugins s)"
      and a: "throws k err"
      and b: "\<forall>i\<le>k. served i (ps' ! i)"
      and c: "\<forall>i. k < i \<and> i < length (plugins s) \<longrightarrow> ps' ! i = plugins s ! i"
      and d: "\<forall>i<k. \<forall>x. \<not> throws i x"
      unfolding thr srv tick_def by auto
    from k a have yes: "\<exists>k<length (plugins s). \<exists>err. throws k err" by blast
    from k a b c d r q have
      "\<exists>k<length (plugins s). \<exists>err.
            throws k err \<and> (\<forall>i<k. \<forall>x. \<not> throws i x) \<and>
            r = Inl err \<and>
            broadcastQueue s' = broadcastQueue s \<and>
            (\<forall>i\<le>k. served i (ps' ! i)) \<and>
            (\<forall>i. k < i \<and> i < length (plugins s) \<longrightarrow> ps' ! i = plugins s ! i)"
      by blast
    with yes len show ?thesis unfolding ps by simp
  qed
qed

text \<open>
  Both cases of the amended C2 at the fixtures. In a list whose second plugin has no handler
  no handler throws: the broadcast returns and records the event. In a list whose second
  plugin's handler throws, the broadcast throws its error, the history stays empty and the
  third plugin is as it was.
\<close>

theorem broadcast_delivers_then_records_witness:
  "fst (broadcast page_env ''x'' eventX withDeaf) = Inr Undefined \<and>
   broadcastQueue (snd (broadcast page_env ''x'' eventX withDeaf)) = [(''x'', eventX)] \<and>
   length (plugins (snd (broadcast page_env ''x'' eventX withDeaf))) = 3 \<and>
   fst (broadcast page_env ''x'' eventX withThrowing) = Inl (Error ''handler failed'') \<and>
   broadcastQueue (snd (broadcast page_env ''x'' eventX withThrowing)) = [] \<and>
   plugins (snd (broadcast page_env ''x'' eventX withThrowing)) ! 2 = mockInstance"
proof -
  have pa: "plugins withDeaf = [mockInstance, deafInstance, mockInstance]"
    and qa: "broadcastQueue withDeaf = []"
    and pb: "plugins withThrowing = [mockInstance, throwingInstance, mockInstance]"
    and qb: "broadcastQueue withThrowing = []"
    by (simp_all add: fixture_defs method_defs)
  have h: "handleEvent mockInstance = Some (\<lambda>calls. None)" "handleEvent deafInstance = None"
    "handleEvent throwingInstance = Some (\<lambda>calls. Some (Error ''handler failed''))"
    by (simp_all add: mockInstance_def deafInstance_def throwingInstance_def)
  have none: "\<not> (\<exists>k<length (plugins withDeaf). \<exists>err. \<exists>h.
      handleEvent (plugins withDeaf ! k) = Some h \<and>
      h (received (plugins withDeaf ! k) @
           [(''x'', eventX, now page_env (clock_reads withDeaf +
              length (filter (\<lambda>p. handleEvent p \<noteq> None) (take k (plugins withDeaf)))))])
        = Some err)"
    by (auto simp: pa h nth_Cons split: nat.splits)
  have some: "\<exists>k<length (plugins withThrowing). \<exists>err. \<exists>h.
      handleEvent (plugins withThrowing ! k) = Some h \<and>
      h (received (plugins withThrowing ! k) @
           [(''x'', eventX, now page_env (clock_reads withThrowing +
              length (filter (\<lambda>p. handleEvent p \<noteq> None) (take k (plugins withThrowing)))))])
        = Some err"
    by (rule exI[of _ 1]) (simp add: pb h)
  have a: "length (plugins (snd (broadcast page_env ''x'' eventX withDeaf)))
             = length (plugins withDeaf) \<and>
           fst (broadcast page_env ''x'' eventX withDeaf) = Inr Undefined \<and>
           broadcastQueue (snd (broadcast page_env ''x'' eventX withDeaf))
             = broadcastQueue withDeaf @ [(''x'', eventX)]"
    using broadcast_delivers_then_records
      [OF prod.collapse[symmetric], of page_env "''x''" eventX withDeaf] none
    by (simp only: if_not_P) simp
  have b: "\<exists>k<length (plugins withThrowing). \<exists>err.
      (\<exists>h. handleEvent (plugins withThrowing ! k) = Some h \<and>
       h (received (plugins withThrowing ! k) @
           [(''x'', eventX, now page_env (clock_reads withThrowing +
              length (filter (\<lambda>p. handleEvent p \<noteq> None) (take k (plugins withThrowing)))))])
         = Some err) \<and>
      fst (broadcast page_env ''x'' eventX withThrowing) = Inl err \<and>
      broadcastQueue (snd (broadcast page_env ''x'' eventX withThrowing))
        = broadcastQueue withThrowing \<and>
      (\<forall>i. k < i \<and> i < length (plugins withThrowing) \<longrightarrow>
         plugins (snd (broadcast page_env ''x'' eventX withThrowing)) ! i
           = plugins withThrowing ! i)"
    using broadcast_delivers_then_records
      [OF prod.collapse[symmetric], of page_env "''x''" eventX withThrowing] some
    by (simp only: if_P) blast
  then obtain k err where k: "k < length (plugins withThrowing)"
    and t: "\<exists>h. handleEvent (plugins withThrowing ! k) = Some h \<and>
       h (received (plugins withThrowing ! k) @
           [(''x'', eventX, now page_env (clock_reads withThrowing +
              length (filter (\<lambda>p. handleEvent p \<noteq> None) (take k (plugins withThrowing)))))])
         = Some err"
    and r: "fst (broadcast page_env ''x'' eventX withThrowing) = Inl err"
    and q: "broadcastQueue (snd (broadcast page_env ''x'' eventX withThrowing))
        = broadcastQueue withThrowing"
    and u: "\<forall>i. k < i \<and> i < length (plugins withThrowing) \<longrightarrow>
         plugins (snd (broadcast page_env ''x'' eventX withThrowing)) ! i
           = plugins withThrowing ! i"
    by blast
  from k t have k1: "k = 1" and e1: "err = Error ''handler failed''"
    by (auto simp: pb h nth_Cons split: nat.splits)
  from u k1 have "plugins (snd (broadcast page_env ''x'' eventX withThrowing)) ! 2
                    = plugins withThrowing ! 2"
    by (simp add: pb)
  with a r q e1 show ?thesis by (simp add: pa pb qa qb)
qed

section \<open>Timestamps\<close>

text \<open>
  C3, as the spec states it, fails: no timestamp is fixed at broadcast time. On a page
  whose clock advances between two readings, the two plugins served by one broadcast of
  \<^verbatim>\<open>'x'\<close> are handed the timestamps 1000 and 1001, and the history entry holds the
  name and the data only.
\<close>

theorem same_timestamp_counterexample:
  "fst (broadcast page_env ''x'' eventX withTwoMocks) = Inr Undefined \<and>
   map received (plugins (snd (broadcast page_env ''x'' eventX withTwoMocks)))
     = [[(''x'', eventX, 1000)], [(''x'', eventX, 1001)]] \<and>
   broadcastQueue (snd (broadcast page_env ''x'' eventX withTwoMocks)) = [(''x'', eventX)]"
  by (simp add: fixture_defs method_defs)

text \<open>
  C3, amended. The history keeps \<^verbatim>\<open>[name, data]\<close> without a timestamp. The
  timestamp handed to \<^verbatim>\<open>handleEvent\<close> is read from the clock at that delivery: in a
  broadcast whose handlers all return, plugin \<open>i\<close> is handed the reading numbered by the
  readings taken before the call plus the plugins with a handler that precede it in the
  list, and the broadcast takes one reading for each plugin with a handler.
\<close>

theorem delivery_timestamp_is_clock_reading:
  assumes "broadcast e name data s = (Inr v, s')"
    and "i < length (plugins s)" and "handleEvent (plugins s ! i) \<noteq> None"
  shows "received (plugins s' ! i) =
           received (plugins s ! i) @
             [(name, data,
               now e (clock_reads s +
                      length (filter (\<lambda>p. handleEvent p \<noteq> None) (take i (plugins s)))))] \<and>
         clock_reads s' =
           clock_reads s + length (filter (\<lambda>p. handleEvent p \<noteq> None) (plugins s)) \<and>
         broadcastQueue s' = broadcastQueue s @ [(name, data)]"
proof -
  obtain r0 ps' t' where fe:
    "broadcast_forEach e name data (plugins s) (clock_reads s) = (r0, ps', t')"
    by (cases "broadcast_forEach e name data (plugins s) (clock_reads s)") auto
  with assms(1) have r0: "r0 = None" and ps: "plugins s' = ps'" and t: "clock_reads s' = t'"
    and q: "broadcastQueue s' = broadcastQueue s @ [(name, data)]"
    by (auto simp: broadcast_def split: option.splits)
  from broadcast_forEach_nth[OF fe[unfolded r0] assms(2)] assms(3) ps
  have "received (plugins s' ! i) =
           received (plugins s ! i) @
             [(name, data,
               now e (clock_reads s +
                      length (filter (\<lambda>p. handleEvent p \<noteq> None) (take i (plugins s)))))]"
    by (auto simp: sendEventToPlugin_plugin split: option.splits)
  with broadcast_forEach_ticks[OF fe[unfolded r0]] t q show ?thesis by simp
qed

text \<open>
  The amended C3 at the third plugin of a list whose second plugin has no handler: it is
  handed the second reading of the clock.
\<close>

theorem delivery_timestamp_is_clock_reading_witness:
  "received (plugins (snd (broadcast page_env ''x'' eventX withDeaf)) ! 2)
     = [(''x'', eventX, 1001)] \<and>
   clock_reads (snd (broadcast page_env ''x'' eventX withDeaf)) = 2"
proof -
  have a: "broadcast page_env ''x'' eventX withDeaf
             = (Inr Undefined, snd (broadcast page_env ''x'' eventX withDeaf))"
    by (simp add: fixture_defs method_defs)
  have p: "plugins withDeaf = [mockInstance, deafInstance, mockInstance]"
    and c: "clock_reads withDeaf = 0"
    by (simp_all add: fixture_defs method_defs)
  have i: "2 < length (plugins withDeaf)" and h: "handleEvent (plugins withDeaf ! 2) \<noteq> None"
    by (simp_all add: p mockInstance_def)
  from delivery_timestamp_is_clock_reading[OF a i h]
  show ?thesis by (simp add: p c mockInstance_def deafInstance_def page_env_def numeral_2_eq_2)
qed

section \<open>Single initialization\<close>

text \<open>
  C4. After a call of \<^verbatim>\<open>initialize\<close> that returned, a second call, whatever its
  options, returns \<^verbatim>\<open>false\<close>, writes the warning \<^verbatim>\<open>already initialized\<close> and
  changes nothing else: nothing is validated, no plugin is admitted and the plugin list is
  the one the first call left.
\<close>

theorem initialize_second_call:
  assumes "initialize e opts s = (Inr r, s1)"
  shows "initialize e' opts' s1 =
           (Inr (Bool False), s1\<lparr>console_warn := console_warn s1 @ [''already initialized'']\<rparr>) \<and>
         plugins (snd (initialize e' opts' s1)) = plugins s1"
  using initialize_success_initialized[OF assms] by (simp add: initialize_def)

text \<open>
  C4 at the test suite's options: the first call admits one plugin, and a second call with
  data that would not pass validation returns \<^verbatim>\<open>false\<close> with one plugin in the list.
\<close>

theorem initialize_second_call_witness:
  "fst (initialize page_env (Some mockOptions) (new_Datalayer False)) = Inr Undefined \<and>
   fst (initialize page_env (Some emptyPageOptions)
          (snd (initialize page_env (Some mockOptions) (new_Datalayer False)))) = Inr (Bool False) \<and>
   console_warn (snd (initialize page_env (Some emptyPageOptions)
          (snd (initialize page_env (Some mockOptions) (new_Datalayer False)))))
     = [''already initialized''] \<and>
   length (plugins (snd (initialize page_env (Some emptyPageOptions)
          (snd (initialize page_env (Some mockOptions) (new_Datalayer False)))))) = 1"
proof -
  have a: "initialize page_env (Some mockOptions) (new_Datalayer False)
             = (Inr Undefined, snd (initialize page_env (Some mockOptions) (new_Datalayer False)))"
    by (simp add: fixture_defs method_defs)
  have w: "console_warn (snd (initialize page_env (Some mockOptions) (new_Datalayer False))) = []"
    and l: "length (plugins (snd (initialize page_env (Some mockOptions) (new_Datalayer False)))) = 1"
    by (simp_all add: fixture_defs method_defs)
  have fa: "fst (initialize page_env (Some mockOptions) (new_Datalayer False)) = Inr Undefined"
    by (subst a) simp
  from initialize_second_call[OF a, of page_env "Some emptyPageOptions"]
  show ?thesis using fa w l by simp
qed

section \<open>Validation of the mandatory data\<close>

text \<open>
  C5. On an object that is not yet initialized, with the data as the scan of the document
  left them, \<^verbatim>\<open>initialize\<close> throws the page-data error unless
  \<^verbatim>\<open>data.page.type\<close> and \<^verbatim>\<open>data.page.name\<close> are both truthy; otherwise the
  site-data error unless \<^verbatim>\<open>data.site.id\<close> is truthy; otherwise the user-data error
  unless \<^verbatim>\<open>data.user\<close> is truthy; otherwise the checks pass. An earlier error hides
  the later ones. A property of a missing object reads as \<open>Undefined\<close>, and a string is
  truthy exactly when it is non-empty.
\<close>

theorem initialize_validation_order:
  assumes "\<not> initialized s" and "initialize_collect e opts s = (None, s1)"
  shows
   "(\<not> (truthy (read_prop (read_prop (globalData s1) ''page'') ''type'') \<and>
        truthy (read_prop (read_prop (globalData s1) ''page'') ''name''))
     \<longrightarrow> fst (initialize e (Some opts) s) = Inl (Error ''Supplied DALPageData is invalid or missing'')) \<and>
    (truthy (read_prop (read_prop (globalData s1) ''page'') ''type'') \<and>
     truthy (read_prop (read_prop (globalData s1) ''page'') ''name'') \<and>
     \<not> truthy (read_prop (read_prop (globalData s1) ''site'') ''id'')
     \<longrightarrow> fst (initialize e (Some opts) s) = Inl (Error ''Supplied DALSiteData is invalid or missing'')) \<and>
    (truthy (read_prop (read_prop (globalData s1) ''page'') ''type'') \<and>
     truthy (read_prop (read_prop (globalData s1) ''page'') ''name'') \<and>
     truthy (read_prop (read_prop (globalData s1) ''site'') ''id'') \<and>
     \<not> truthy (read_prop (globalData s1) ''user'')
     \<longrightarrow> fst (initialize e (Some opts) s) = Inl (Error ''Supplied DALUserData is invalid or missing'')) \<and>
    (truthy (read_prop (read_prop (globalData s1) ''page'') ''type'') \<and>
     truthy (read_prop (read_prop (globalData s1) ''page'') ''name'') \<and>
     truthy (read_prop (read_prop (globalData s1) ''site'') ''id'') \<and>
     truthy (read_prop (globalData s1) ''user'')
     \<longrightarrow> validate_mandatory (globalData s1) = None)"
proof -
  have t: "truthy (globalData s1)" using initialize_collect_frame(2)[OF assms(2)] .
  note v = validate_mandatory_truthy[OF t]
  have p: "truthy (read_prop (read_prop (globalData s1) ''page'') ''type'')
             \<Longrightarrow> truthy (read_prop (globalData s1) ''page'')"
    and q: "truthy (read_prop (read_prop (globalData s1) ''site'') ''id'')
             \<Longrightarrow> truthy (read_prop (globalData s1) ''site'')"
    by (rule truthy_read_prop, assumption)+
  show ?thesis
    using initialize_invalid[OF assms] v p q by (auto split: if_splits)
qed

text \<open>
  C5 at the three calls of the test suite, one for each error, and at the complete mock
  data, which pass.
\<close>

theorem initialize_validation_order_witness:
  "fst (initialize page_env (Some emptyPageOptions) (new_Datalayer False))
     = Inl (Error ''Supplied DALPageData is invalid or missing'') \<and>
   fst (initialize page_env (Some pageOnlyOptions) (new_Datalayer False))
     = Inl (Error ''Supplied DALSiteData is invalid or missing'') \<and>
   fst (initialize page_env (Some pageSiteOptions) (new_Datalayer False))
     = Inl (Error ''Supplied DALUserData is invalid or missing'') \<and>
   validate_mandatory (globalData (snd (initialize_collect page_env mockOptions (new_Datalayer False))))
     = None"
proof -
  have n: "\<not> initialized (new_Datalayer False)" by (simp add: new_Datalayer_def)
  have c: "\<And>opts. initialize_collect page_env opts (new_Datalayer False)
             = (None, snd (initialize_collect page_env opts (new_Datalayer False)))"
    by (simp add: initialize_collect_def scanForDataMarkup_def page_env_def new_Datalayer_def
             split: jsval.splits)
  have d: "\<And>opts. globalData (snd (initialize_collect page_env opts (new_Datalayer False)))
             = (if truthy (opt_data opts) then opt_data opts else Obj [])"
    by (simp add: initialize_collect_def scanForDataMarkup_def page_env_def new_Datalayer_def
             split: jsval.splits)
  from initialize_validation_order[OF n c[of emptyPageOptions]]
    initialize_validation_order[OF n c[of pageOnlyOptions]]
    initialize_validation_order[OF n c[of pageSiteOptions]]
    initialize_validation_order[OF n c[of mockOptions]]
  show ?thesis
    by (simp add: d read_prop_def emptyPageOptions_def pageOnlyOptions_def pageSiteOptions_def
          mockOptions_def globalDataMock_def)
qed

text \<open>
  C6, as the spec states it, fails: the global data and the global configuration are
  assigned before the checks run. A first call with \<^verbatim>\<open>{page: {}}\<close> as data and a
  configuration throws the page-data error and leaves both in the object.
\<close>

theorem failed_initialize_state_counterexample:
  "fst (initialize page_env (Some emptyPageOptions) (new_Datalayer False))
     = Inl (Error ''Supplied DALPageData is invalid or missing'') \<and>
   globalData (new_Datalayer False) = Obj [] \<and>
   globalData (snd (initialize page_env (Some emptyPageOptions) (new_Datalayer False)))
     = Obj [(''page'', Obj [])] \<and>
   globalConfig (new_Datalayer False) = Obj [] \<and>
   globalConfig (snd (initialize page_env (Some emptyPageOptions) (new_Datalayer False)))
     = Obj [(''test/mockPlugin'', Obj [(''account'', Num 7)])]"
  by (simp add: fixture_defs method_defs)

text \<open>
  C6, amended. When the checks fail, \<^verbatim>\<open>initialize\<close> throws the error at once and
  has changed two fields only: \<^verbatim>\<open>globalConfig\<close> is \<^verbatim>\<open>options.config || {}\<close> and
  \<^verbatim>\<open>globalData\<close> is the supplied data (\<^verbatim>\<open>{}\<close> when they are falsy) with the
  document's markup merged in by \<^verbatim>\<open>collectMetadata\<close>. The object
  is still uninitialized, its plugin list and its readiness promise are as they were (the
  promise is not rejected), and since the next call assigns both fields anew, a retry
  behaves as the same call on the object before the failed one.
\<close>

theorem initialize_validation_failure:
  assumes "\<not> initialized s" and "initialize_collect e opts s = (None, s1)"
    and "validate_mandatory (globalData s1) = Some err"
  shows "initialize e (Some opts) s = (Inl err, s1) \<and>
         s1 = s\<lparr>globalConfig := (if truthy (opt_config opts) then opt_config opts else Obj []),
                globalData := globalData s1\<rparr> \<and>
         globalData s1 =
           (case (if truthy (opt_data opts) then opt_data opts else Obj []) of
              Obj kvs \<Rightarrow> Obj (snd (collectMetadata e kvs))
            | Undefined \<Rightarrow> Undefined | Null \<Rightarrow> Null | Bool b \<Rightarrow> Bool b
            | Num n \<Rightarrow> Num n | Str x \<Rightarrow> Str x) \<and>
         \<not> initialized s1 \<and> plugins s1 = plugins s \<and> readyPromise s1 = readyPromise s \<and>
         initialize e' (Some opts') s1 = initialize e' (Some opts') s"
proof -
  note f = initialize_collect_frame(1)[OF assms(2)]
  have a: "\<not> initialized s1" using assms(1) by (subst f) simp
  have b: "plugins s1 = plugins s" by (subst f) simp
  have c: "readyPromise s1 = readyPromise s" by (subst f) simp
  have d: "initialize_collect e' opts' s1 = initialize_collect e' opts' s"
    unfolding initialize_collect_def by (subst f) simp
  have g: "globalData s1 =
           (case (if truthy (opt_data opts) then opt_data opts else Obj []) of
              Obj kvs \<Rightarrow> Obj (snd (collectMetadata e kvs))
            | Undefined \<Rightarrow> Undefined | Null \<Rightarrow> Null | Bool b \<Rightarrow> Bool b
            | Num n \<Rightarrow> Num n | Str x \<Rightarrow> Str x)"
    using assms(2) unfolding initialize_collect_def scanForDataMarkup_def
    by (auto split: jsval.splits prod.splits if_splits)
  have "initialize e' (Some opts') s1 = initialize e' (Some opts') s"
    using a assms(1) d by (simp add: initialize_def)
  with initialize_invalid[OF assms] f a b c g show ?thesis by blast
qed

text \<open>
  The amended C6 at the failing call of the test suite, retried with the complete mock
  data.
\<close>

theorem initialize_validation_failure_witness:
  "fst (initialize page_env (Some emptyPageOptions) (new_Datalayer False))
     = Inl (Error ''Supplied DALPageData is invalid or missing'') \<and>
   \<not> initialized (snd (initialize page_env (Some emptyPageOptions) (new_Datalayer False))) \<and>
   plugins (snd (initialize page_env (Some emptyPageOptions) (new_Datalayer False))) = [] \<and>
   readyPromise (snd (initialize page_env (Some emptyPageOptions) (new_Datalayer False))) = Pending \<and>
   fst (initialize page_env (Some mockOptions)
          (snd (initialize page_env (Some emptyPageOptions) (new_Datalayer False)))) = Inr Undefined"
proof -
  have n: "\<not> initialized (new_Datalayer False)" by (simp add: new_Datalayer_def)
  have c: "initialize_collect page_env emptyPageOptions (new_Datalayer False)
             = (None, snd (initialize_collect page_env emptyPageOptions (new_Datalayer False)))"
    by (simp add: fixture_defs method_defs)
  have v: "validate_mandatory
             (globalData (snd (initialize_collect page_env emptyPageOptions (new_Datalayer False))))
           = Some (Error ''Supplied DALPageData is invalid or missing'')"
    by (simp add: fixture_defs method_defs)
  have f: "fst (initialize page_env (Some mockOptions) (new_Datalayer False)) = Inr Undefined"
    by (simp add: fixture_defs method_defs)
  have p: "plugins (new_Datalayer False) = []" "readyPromise (new_Datalayer False) = Pending"
    by (simp_all add: new_Datalayer_def)
  from initialize_validation_failure[OF n c v, of page_env mockOptions]
  show ?thesis using f p by simp
qed

section \<open>Rule evaluation\<close>

text \<open>
  C7. \<^verbatim>\<open>validateRule\<close> returns a boolean rule as it is and the result of a function
  rule called on the global data. For a structured rule with a callable \<^verbatim>\<open>rule\<close>
  it returns \<^verbatim>\<open>rule(data)\<close> when \<^verbatim>\<open>test\<close> is omitted or \<^verbatim>\<open>false\<close>, and when
  \<^verbatim>\<open>test\<close> is \<^verbatim>\<open>true\<close> and test mode is active; with \<^verbatim>\<open>test\<close>
  \<^verbatim>\<open>true\<close> outside test mode it returns \<^verbatim>\<open>false\<close>. The last three conjuncts are
  the spec's examples, for any data \<open>d\<close>: the rule \<^verbatim>\<open>true\<close> outside test mode, and
  \<^verbatim>\<open>{rule: () => true, test: true}\<close> outside and inside test mode.
\<close>

theorem validateRule_gating:
  "validateRule (RBool b) s = Inr (Bool b) \<and>
   validateRule (RFun f) s = f (globalData s) \<and>
   validateRule (RObj Undefined (Some f)) s = f (globalData s) \<and>
   validateRule (RObj (Bool False) (Some f)) s = f (globalData s) \<and>
   validateRule (RObj (Bool True) (Some f)) (s\<lparr>testModeActive := True\<rparr>) = f (globalData s) \<and>
   validateRule (RObj (Bool True) (Some f)) (s\<lparr>testModeActive := False\<rparr>) = Inr (Bool False) \<and>
   validateRule (RBool True) (s\<lparr>globalData := d, testModeActive := False\<rparr>) = Inr (Bool True) \<and>
   validateRule (RObj (Bool True) (Some (\<lambda>x. Inr (Bool True))))
       (s\<lparr>globalData := d, testModeActive := False\<rparr>) = Inr (Bool False) \<and>
   validateRule (RObj (Bool True) (Some (\<lambda>x. Inr (Bool True))))
       (s\<lparr>globalData := d, testModeActive := True\<rparr>) = Inr (Bool True)"
  by simp

theorem validateRule_gating_witness:
  "validateRule (RBool False) (new_Datalayer True) = Inr (Bool False) \<and>
   validateRule (RFun (\<lambda>x. Inr (read_prop x ''user''))) (new_Datalayer True) = Inr Undefined \<and>
   validateRule (RObj (Bool True) (Some (\<lambda>x. Inr (Num 1)))) (new_Datalayer True) = Inr (Num 1) \<and>
   validateRule (RObj (Bool True) (Some (\<lambda>x. Inr (Num 1)))) (new_Datalayer False)
     = Inr (Bool False)"
  using validateRule_gating
    [of False "new_Datalayer True" "\<lambda>x. Inr (read_prop x ''user'')" Undefined]
    validateRule_gating [of False "new_Datalayer True" "\<lambda>x. Inr (Num 1)" Undefined]
  by (simp add: new_Datalayer_def read_prop_def)

text \<open>
  C8, as the spec states it, fails: \<^verbatim>\<open>validateRule\<close> throws a \<^verbatim>\<open>TypeError\<close>
  for \<^verbatim>\<open>null\<close>, \<^verbatim>\<open>undefined\<close>, the number 5 and the empty object, where the
  claim has it return \<^verbatim>\<open>false\<close>.
\<close>

theorem validateRule_malformed_counterexample:
  "validateRule RNull (new_Datalayer False) = Inl TypeError \<and>
   validateRule RUndefined (new_Datalayer False) = Inl TypeError \<and>
   validateRule (RNum 5) (new_Datalayer False) = Inl TypeError \<and>
   validateRule (RObj Undefined None) (new_Datalayer False) = Inl TypeError"
  by simp

text \<open>
  C8, amended. Rule evaluation is not total. For \<^verbatim>\<open>undefined\<close>, \<^verbatim>\<open>null\<close>, a
  number and a string it throws a \<^verbatim>\<open>TypeError\<close>. For an object without a callable
  \<^verbatim>\<open>rule\<close> it throws a \<^verbatim>\<open>TypeError\<close> when \<^verbatim>\<open>test\<close> is falsy, and when
  \<^verbatim>\<open>test\<close> is \<^verbatim>\<open>true\<close> in test mode; for any other \<^verbatim>\<open>test\<close> it returns
  \<^verbatim>\<open>false\<close>, and nothing is written: the loop of \<^verbatim>\<open>initialize\<close> passes over
  such a plugin and leaves the object as it was, the \<^verbatim>\<open>console.warn\<close> lines included.
\<close>

theorem validateRule_malformed:
  "validateRule RUndefined s = Inl TypeError \<and>
   validateRule RNull s = Inl TypeError \<and>
   validateRule (RNum n) s = Inl TypeError \<and>
   validateRule (RStr x) s = Inl TypeError \<and>
   validateRule (RObj t None) s =
     (if \<not> truthy t \<or> (t = Bool True \<and> testModeActive s) then Inl TypeError
      else Inr (Bool False)) \<and>
   initialize_forEach e [\<lparr>po_type = c, po_config = cfg, po_rule = RObj t None\<rparr>] s =
     (if \<not> truthy t \<or> (t = Bool True \<and> testModeActive s) then (Some TypeError, s)
      else (None, s))"
  by simp

theorem validateRule_malformed_witness:
  "validateRule (RObj (Bool True) None) (new_Datalayer True) = Inl TypeError \<and>
   validateRule (RObj (Bool True) None) (new_Datalayer False) = Inr (Bool False) \<and>
   validateRule (RObj (Str ''yes'') None) (new_Datalayer True) = Inr (Bool False) \<and>
   initialize_forEach page_env
       [\<lparr>po_type = MockPlugin, po_config = Undefined, po_rule = RObj (Str ''yes'') None\<rparr>]
       (new_Datalayer True)
     = (None, new_Datalayer True)"
  using validateRule_malformed [of "new_Datalayer True" 0 "[]" "Bool True" page_env MockPlugin Undefined]
    validateRule_malformed [of "new_Datalayer False" 0 "[]" "Bool True" page_env MockPlugin Undefined]
    validateRule_malformed [of "new_Datalayer True" 0 "[]" "Str ''yes''" page_env MockPlugin Undefined]
  by (simp add: new_Datalayer_def)

section \<open>Plugins without handleEvent\<close>

text \<open>
  C9, as the spec states it, fails: \<^verbatim>\<open>addPlugin\<close> does not look at
  \<^verbatim>\<open>handleEvent\<close>. Adding a class whose instances have no such function to a new
  datalayer returns normally, with the instance in the plugin list.
\<close>

theorem addPlugin_without_handleEvent_counterexample:
  "fst (addPlugin page_env DeafPlugin Undefined (new_Datalayer False)) = Inr Undefined \<and>
   plugins (snd (addPlugin page_env DeafPlugin Undefined (new_Datalayer False))) = [deafInstance] \<and>
   handleEvent deafInstance = None"
  by (simp add: fixture_defs method_defs)

text \<open>
  C9, amended. Admission of a plugin without a \<^verbatim>\<open>handleEvent\<close> function does not
  fail: while no event is recorded, \<^verbatim>\<open>addPlugin\<close> returns normally and appends the
  instance to the plugin list. \<^verbatim>\<open>sendEventToPlugin\<close> passes over such a plugin
  without an error and without reading the clock, and a broadcast does to the other plugins
  exactly what it does when the plugin is not in the list, with the same result.
\<close>

theorem addPlugin_without_handleEvent:
  assumes "handleEvent p = None"
  shows "(getID c = Some pid \<and> get_prop (globalConfig s) pid = Inr gc \<and>
          construct c (globalData s)
            (if truthy gc then gc else if cfg = Undefined then Obj [] else cfg) = Inr p \<and>
          broadcastQueue s = []
          \<longrightarrow> addPlugin e c cfg s = (Inr Undefined, s\<lparr>plugins := plugins s @ [p]\<rparr>)) \<and>
         sendEventToPlugin e p n d t = (None, p, t) \<and>
         broadcast e n d (s\<lparr>plugins := ps @ p # qs\<rparr>) =
           (case broadcast e n d (s\<lparr>plugins := ps @ qs\<rparr>) of
              (r, s') \<Rightarrow>
                (r, s'\<lparr>plugins := take (length ps) (plugins s') @ p # drop (length ps) (plugins s')\<rparr>))"
proof (intro conjI impI)
  assume "getID c = Some pid \<and> get_prop (globalConfig s) pid = Inr gc \<and>
          construct c (globalData s)
            (if truthy gc then gc else if cfg = Undefined then Obj [] else cfg) = Inr p \<and>
          broadcastQueue s = []"
  then show "addPlugin e c cfg s = (Inr Undefined, s\<lparr>plugins := plugins s @ [p]\<rparr>)"
    by (simp add: addPlugin_def)
next
  show "sendEventToPlugin e p n d t = (None, p, t)"
    using assms by (simp add: sendEventToPlugin_def)
next
  show "broadcast e n d (s\<lparr>plugins := ps @ p # qs\<rparr>) =
           (case broadcast e n d (s\<lparr>plugins := ps @ qs\<rparr>) of
              (r, s') \<Rightarrow>
                (r, s'\<lparr>plugins := take (length ps) (plugins s') @ p # drop (length ps) (plugins s')\<rparr>))"
    unfolding broadcast_def
    by (simp add: broadcast_forEach_skip[OF assms] split: prod.splits option.splits)
qed

text \<open>
  The amended C9 at a plugin without a handler between two \<^verbatim>\<open>MockPlugin\<close>s.
\<close>

theorem addPlugin_without_handleEvent_witness:
  "addPlugin page_env DeafPlugin Undefined (new_Datalayer False)
     = (Inr Undefined, (new_Datalayer False)\<lparr>plugins := [deafInstance]\<rparr>) \<and>
   sendEventToPlugin page_env deafInstance ''x'' eventX 0 = (None, deafInstance, 0) \<and>
   map received (plugins (snd (broadcast page_env ''x'' eventX
       ((new_Datalayer False)\<lparr>plugins := [mockInstance] @ deafInstance # [mockInstance]\<rparr>))))
     = [[(''x'', eventX, 1000)], [], [(''x'', eventX, 1001)]] \<and>
   map received (plugins (snd (broadcast page_env ''x'' eventX
       ((new_Datalayer False)\<lparr>plugins := [mockInstance] @ [mockInstance]\<rparr>))))
     = [[(''x'', eventX, 1000)], [(''x'', eventX, 1001)]]"
proof -
  have h: "handleEvent deafInstance = None" by (simp add: deafInstance_def)
  have b: "plugins (snd (broadcast page_env ''x'' eventX
       ((new_Datalayer False)\<lparr>plugins := [mockInstance] @ [mockInstance]\<rparr>)))
     = [mockInstance\<lparr>received := [(''x'', eventX, 1000)]\<rparr>,
        mockInstance\<lparr>received := [(''x'', eventX, 1001)]\<rparr>]"
    by (simp add: fixture_defs method_defs)
  have g: "getID DeafPlugin = Some ''test/deafPlugin''"
    "get_prop (globalConfig (new_Datalayer False)) ''test/deafPlugin'' = Inr Undefined"
    "construct DeafPlugin (globalData (new_Datalayer False)) (Obj []) = Inr deafInstance"
    "broadcastQueue (new_Datalayer False) = []" "plugins (new_Datalayer False) = []"
    by (simp_all add: DeafPlugin_def new_Datalayer_def)
  from addPlugin_without_handleEvent[OF h, of DeafPlugin "''test/deafPlugin''" "new_Datalayer False"
      Undefined Undefined page_env "''x''" eventX 0 "[mockInstance]" "[mockInstance]"]
  show ?thesis using g b
    by (simp add: split_beta deafInstance_def)
qed

section \<open>The return value of initialize\<close>

text \<open>
  C10. \<^verbatim>\<open>initialize\<close> never returns \<^verbatim>\<open>true\<close>. A first call that returns gives
  \<^verbatim>\<open>undefined\<close>, with the object initialized and the readiness promise resolved; the
  last event of the history is the \<^verbatim>\<open>'initialize'\<close> broadcast with the global data, so
  nothing was broadcast after it, and no warning was written.
\<close>

theorem initialize_bare_return:
  "fst (initialize e opts s) \<noteq> Inr (Bool True) \<and>
   (\<not> initialized s \<longrightarrow> initialize e opts s = (Inr v, s') \<longrightarrow>
      v = Undefined \<and> initialized s' \<and>
      readyPromise s' = readyPromiseResolver (readyPromise s) \<and>
      broadcastQueue s' = broadcastQueue s @ [(''initialize'', globalData s')] \<and>
      console_warn s' = console_warn s)"
proof (intro conjI impI)
  show "fst (initialize e opts s) \<noteq> Inr (Bool True)"
    by (auto simp: initialize_def split: option.splits prod.splits sum.splits)
next
  assume ni: "\<not> initialized s" and ok: "initialize e opts s = (Inr v, s')"
  from ni ok obtain o' s1 s2 s3 u where
    c: "initialize_collect e o' s = (None, s1)"
    and fe: "initialize_forEach e (opt_plugins o') s1 = (None, s2)"
    and b: "broadcast e ''initialize'' (globalData s2) (s2\<lparr>initialized := True\<rparr>) = (Inr u, s3)"
    and s': "s' = s3\<lparr>readyPromise := readyPromiseResolver (readyPromise s3)\<rparr>"
    and v: "v = Undefined"
    by (auto simp: initialize_def split: option.splits prod.splits sum.splits)
  note f1 = initialize_collect_frame(1)[OF c]
  have q1: "broadcastQueue s1 = broadcastQueue s" by (subst f1) simp
  have p1: "readyPromise s1 = readyPromise s" by (subst f1) simp
  have w1: "console_warn s1 = console_warn s" by (subst f1) simp
  note f2 = initialize_forEach_frame[OF fe]
  note f3 = broadcast_frame[OF b]
  note q3 = broadcast_queue[OF b]
  show "v = Undefined" by (rule v)
  show "initialized s'" using f3 s' by simp
  show "readyPromise s' = readyPromiseResolver (readyPromise s)" using s' f3 f2 p1 by simp
  show "broadcastQueue s' = broadcastQueue s @ [(''initialize'', globalData s')]"
    using s' q3 f3 f2 q1 by simp
  show "console_warn s' = console_warn s" using s' f3 f2 w1 by simp
qed

text \<open>
  C10 at the test suite's options on a new datalayer.
\<close>

theorem initialize_bare_return_witness:
  "fst (initialize page_env (Some mockOptions) (new_Datalayer False)) = Inr Undefined \<and>
   initialized (snd (initialize page_env (Some mockOptions) (new_Datalayer False))) \<and>
   readyPromise (snd (initialize page_env (Some mockOptions) (new_Datalayer False))) = Resolved \<and>
   broadcastQueue (snd (initialize page_env (Some mockOptions) (new_Datalayer False)))
     = [(''initialize'', globalDataMock)]"
proof -
  have n: "\<not> initialized (new_Datalayer False)" "readyPromise (new_Datalayer False) = Pending"
    "broadcastQueue (new_Datalayer False) = []"
    by (simp_all add: new_Datalayer_def)
  have a: "initialize page_env (Some mockOptions) (new_Datalayer False)
             = (Inr Undefined, snd (initialize page_env (Some mockOptions) (new_Datalayer False)))"
    by (simp add: fixture_defs method_defs)
  have g: "globalData (snd (initialize page_env (Some mockOptions) (new_Datalayer False)))
             = globalDataMock"
    by (simp add: fixture_defs method_defs)
  have fa: "fst (initialize page_env (Some mockOptions) (new_Datalayer False)) = Inr Undefined"
    by (subst a) simp
  from initialize_bare_return[of page_env "Some mockOptions" "new_Datalayer False" Undefined
      "snd (initialize page_env (Some mockOptions) (new_Datalayer False))"]
  show ?thesis using n g fa by (simp add: a[symmetric])
qed

end
